theory Spec2Isabelle
  imports Main
begin

section \<open>The browser: localStorage, observable effects, current route\<close>

text \<open>
  \<^verbatim>\<open>localStorage\<close> is a map from keys to strings; \<^verbatim>\<open>getItem\<close> of a missing key is
  \<^verbatim>\<open>null\<close>, here \<open>None\<close>.
\<close>

type_synonym storage = "string \<rightharpoonup> string"

definition getItem :: "storage \<Rightarrow> string \<Rightarrow> string option" where
  "getItem ls k = ls k"

definition setItem :: "storage \<Rightarrow> string \<Rightarrow> string \<Rightarrow> storage" where
  "setItem ls k v = ls(k \<mapsto> v)"

definition removeItem :: "storage \<Rightarrow> string \<Rightarrow> storage" where
  "removeItem ls k = ls(k := None)"

definition KEY_COMPANY :: string where
  "KEY_COMPANY = ''botivate_onboarding_company''"

definition KEY_GOOGLE :: string where
  "KEY_GOOGLE = ''botivate_google_connected''"

definition KEY_FORM :: string where
  "KEY_FORM = ''botivate_onboarding_form''"

text \<open>
  JavaScript truthiness of a value that is a string or \<^verbatim>\<open>null\<close>: \<^verbatim>\<open>null\<close> and the
  empty string are falsy, every other string is truthy.
\<close>

definition truthy :: "string option \<Rightarrow> bool" where
  "truthy v = (case v of None \<Rightarrow> False | Some str \<Rightarrow> str \<noteq> [])"

text \<open>The value of \<^verbatim>\<open>a || b\<close> for an optional string \<^verbatim>\<open>a\<close> and a string \<^verbatim>\<open>b\<close>.\<close>

definition or_else :: "string option \<Rightarrow> string \<Rightarrow> string" where
  "or_else v d = (case v of None \<Rightarrow> d | Some str \<Rightarrow> if str = [] then d else str)"

text \<open>
  The outcome of an awaited backend call: it resolves with the data the handler reads,
  or it rejects; \<open>Rejected d\<close> carries \<^verbatim>\<open>error.response?.data?.detail\<close>.
\<close>

datatype 'a response = Resolved 'a | Rejected "string option"

text \<open>
  The requests the pages send. The company id is written as the page holds it (a string
  or \<^verbatim>\<open>null\<close>), since the handlers splice it into the URL unchecked.
\<close>

datatype request =
    Register string string string string
  | OAuthExchange string string
  | AddDatabase "string option" string
  | PolicyText "string option" string
  | PolicyDocument "string option" string
  | Provision "string option" string

datatype event =
    Request request
  | StoreSet string string
  | StoreRemove string
  | ToastError string
  | ToastSuccess string
  | ToastLoading string
  | Navigate string
  | LocationAssign string

record browser =
  localStorage :: storage
  trace :: "event list"
  route :: string

definition emit :: "event \<Rightarrow> 'a browser_scheme \<Rightarrow> 'a browser_scheme" where
  "emit e b = b\<lparr>trace := trace b @ [e]\<rparr>"

definition storeSet :: "string \<Rightarrow> string \<Rightarrow> 'a browser_scheme \<Rightarrow> 'a browser_scheme" where
  "storeSet k v b = emit (StoreSet k v) (b\<lparr>localStorage := setItem (localStorage b) k v\<rparr>)"

definition storeRemove :: "string \<Rightarrow> 'a browser_scheme \<Rightarrow> 'a browser_scheme" where
  "storeRemove k b = emit (StoreRemove k) (b\<lparr>localStorage := removeItem (localStorage b) k\<rparr>)"

definition navigate :: "string \<Rightarrow> 'a browser_scheme \<Rightarrow> 'a browser_scheme" where
  "navigate path b = emit (Navigate path) (b\<lparr>route := path\<rparr>)"

definition locationAssign :: "string \<Rightarrow> 'a browser_scheme \<Rightarrow> 'a browser_scheme" where
  "locationAssign url b = emit (LocationAssign url) (b\<lparr>route := url\<rparr>)"

section \<open>OnboardingPage (frontend/src/pages/OnboardingPage.jsx)\<close>

record form =
  companyName :: string
  industry :: string
  contactName :: string
  contactEmail :: string
  policiesText :: string
  dbUrl :: string
  policyFile :: "string option"

definition emptyForm :: form where
  "emptyForm = \<lparr>companyName = [], industry = [], contactName = [], contactEmail = [],
     policiesText = [], dbUrl = [], policyFile = None\<rparr>"

text \<open>
  \<^verbatim>\<open>JSON.stringify\<close> and \<^verbatim>\<open>JSON.parse\<close> are library functions; the page is
  modelled for any pair of them. \<open>parse str = None\<close> is \<^verbatim>\<open>JSON.parse\<close> throwing.
\<close>

record json =
  stringify :: "form \<Rightarrow> string"
  parse :: "string \<Rightarrow> form option"

text \<open>The component's \<^verbatim>\<open>useState\<close> cells, on top of the browser they live in.\<close>

record state = browser +
  step :: nat
  formData :: form
  globalCompanyId :: "string option"
  googleConnected :: bool
  isLoading :: bool

text \<open>The state a freshly constructed component starts from (the \<^verbatim>\<open>useState\<close> defaults).\<close>

definition initial :: "browser \<Rightarrow> state" where
  "initial b = \<lparr>localStorage = localStorage b, trace = trace b, route = ''/onboarding'',
     step = 1, formData = emptyForm, globalCompanyId = None, googleConnected = False,
     isLoading = False\<rparr>"

text \<open>The mount effect (lines 25-42): restore the session when returning from Google.\<close>

definition restore :: "json \<Rightarrow> state \<Rightarrow> state" where
  "restore js s =
     (let returningCompanyId = getItem (localStorage s) KEY_COMPANY;
          isGoogle = (getItem (localStorage s) KEY_GOOGLE = Some ''true'');
          savedFormStr = getItem (localStorage s) KEY_FORM
      in if truthy returningCompanyId \<and> isGoogle then
           let s1 = s\<lparr>globalCompanyId := returningCompanyId, googleConnected := True\<rparr>;
               s2 = (case savedFormStr of
                       None \<Rightarrow> s1
                     | Some str \<Rightarrow>
                         if str = [] then s1
                         else (case parse js str of
                                 Some parsedForm \<Rightarrow> s1\<lparr>formData := parsedForm\<rparr>
                               | None \<Rightarrow> s1))
           in s2\<lparr>step := 2\<rparr>
         else s)"

definition mount :: "json \<Rightarrow> browser \<Rightarrow> state" where
  "mount js b = restore js (initial b)"

text \<open>
  What the component renders (lines 174-378): the profile form at step 1; otherwise the
  "Grant Data Access" panel while Google is not connected, and the resource form once it
  is. These are the workflow's CollectingProfile, AwaitingAuthorization and
  ConfiguringResources.
\<close>

datatype workflow_step = CollectingProfile | AwaitingAuthorization | ConfiguringResources

definition currentStep :: "state \<Rightarrow> workflow_step" where
  "currentStep s =
     (if step s = 1 then CollectingProfile
      else if \<not> googleConnected s then AwaitingAuthorization
      else ConfiguringResources)"

text \<open>\<^verbatim>\<open>handleNext\<close> (lines 44-78); \<open>compRes\<close> is the outcome of the register call, read
  only when the call is made.\<close>

definition handleNext :: "json \<Rightarrow> string response \<Rightarrow> state \<Rightarrow> state" where
  "handleNext js compRes s =
     (if step s = 1 \<and> (companyName (formData s) = [] \<or> contactEmail (formData s) = []) then
        emit (ToastError ''Please fill required fields.'') s
      else if \<not> truthy (globalCompanyId s) then
        let s1 = s\<lparr>isLoading := True\<rparr>;
            s2 = emit (Request (Register (companyName (formData s)) (industry (formData s))
                   (contactName (formData s)) (contactEmail (formData s)))) s1;
            s3 = (case compRes of
                    Resolved newCompanyId \<Rightarrow>
                      (storeSet KEY_FORM (stringify js (formData s))
                        (storeSet KEY_COMPANY newCompanyId
                          (s2\<lparr>globalCompanyId := Some newCompanyId\<rparr>)))\<lparr>step := 2\<rparr>
                  | Rejected detail \<Rightarrow>
                      emit (ToastError (or_else detail
                        ''Registration failed. Check if email/company already exists.'')) s2)
        in s3\<lparr>isLoading := False\<rparr>
      else s\<lparr>step := 2\<rparr>)"

definition oauthUrl :: string where
  "oauthUrl = ''https://accounts.google.com/o/oauth2/v2/auth?client_id=''
     @ ''561628688869-uhibvk67hslomtphrq8hp4ha1ktviefl.apps.googleusercontent.com''
     @ ''&redirect_uri='' @ ''http://localhost:5173/oauth/callback''
     @ ''&response_type=code&scope=''
     @ ''https%3A%2F%2Fmail.google.com%2F%20https%3A%2F%2Fwww.googleapis.com%2Fauth%2Fspreadsheets''
     @ ''%20https%3A%2F%2Fwww.googleapis.com%2Fauth%2Fdrive''
     @ ''&access_type=offline&prompt=consent''"

text \<open>\<^verbatim>\<open>handleGoogleOAuth\<close> (lines 80-93).\<close>

definition handleGoogleOAuth :: "json \<Rightarrow> state \<Rightarrow> state" where
  "handleGoogleOAuth js s =
     (if \<not> truthy (globalCompanyId s) then s
      else locationAssign oauthUrl (storeSet KEY_FORM (stringify js (formData s)) s))"

text \<open>
  \<^verbatim>\<open>String.prototype.trim\<close> on the ASCII white space and line terminators (tab, line
  feed, vertical tab, form feed, carriage return, space).
\<close>

definition js_space :: "char \<Rightarrow> bool" where
  "js_space c = (c \<in> set [CHR 0x09, CHR 0x0A, CHR 0x0B, CHR 0x0C, CHR 0x0D, CHR 0x20])"

definition trim :: "string \<Rightarrow> string" where
  "trim str = rev (dropWhile js_space (rev (dropWhile js_space str)))"

text \<open>
  \<^verbatim>\<open>handleSubmit\<close> (lines 95-166). The body of its \<^verbatim>\<open>try\<close> is four stages and a
  finish; a stage that throws is \<open>Inl\<close>, with the rejection's detail and the state reached.
\<close>

record submit_responses =
  dbRes :: "string response"
  textRes :: "unit response"
  docRes :: "unit response"
  provRes :: "unit response"

definition addDatabaseStage ::
  "submit_responses \<Rightarrow> state \<Rightarrow> (string option \<times> state) + (string option \<times> state)" where
  "addDatabaseStage r s =
     (if dbUrl (formData s) \<noteq> [] then
        let s1 = emit (Request (AddDatabase (globalCompanyId s) (dbUrl (formData s)))) s
        in (case dbRes r of
              Resolved dbId \<Rightarrow> Inr (Some dbId, s1)
            | Rejected detail \<Rightarrow> Inl (detail, s1))
      else Inr (None, s))"

definition policyTextStage ::
  "submit_responses \<Rightarrow> state \<Rightarrow> (string option \<times> state) + state" where
  "policyTextStage r s =
     (if trim (policiesText (formData s)) \<noteq> [] then
        let s1 = emit (Request (PolicyText (globalCompanyId s) (policiesText (formData s)))) s
        in (case textRes r of
              Resolved _ \<Rightarrow> Inr s1
            | Rejected detail \<Rightarrow> Inl (detail, s1))
      else Inr s)"

definition policyDocStage ::
  "submit_responses \<Rightarrow> state \<Rightarrow> (string option \<times> state) + state" where
  "policyDocStage r s =
     (case policyFile (formData s) of
        Some name \<Rightarrow>
          let s1 = emit (Request (PolicyDocument (globalCompanyId s) name)) s
          in (case docRes r of
                Resolved _ \<Rightarrow> Inr s1
              | Rejected detail \<Rightarrow> Inl (detail, s1))
      | None \<Rightarrow> Inr s)"

definition provisionStage ::
  "submit_responses \<Rightarrow> string option \<Rightarrow> state \<Rightarrow> (string option \<times> state) + state" where
  "provisionStage r dbId s =
     (case dbId of
        None \<Rightarrow> Inr s
      | Some i \<Rightarrow>
          if i = [] then Inr s
          else
            let s1 = emit (Request (Provision (globalCompanyId s) i)) s
            in (case provRes r of
                  Resolved _ \<Rightarrow> Inr s1
                | Rejected detail \<Rightarrow> Inl (detail, s1)))"

definition finishStage :: "state \<Rightarrow> state" where
  "finishStage s =
     navigate ''/login''
       (emit (ToastSuccess ''Company registered and workspace ready!'')
         (storeRemove KEY_FORM (storeRemove KEY_GOOGLE (storeRemove KEY_COMPANY s))))"

definition tryFinalize :: "submit_responses \<Rightarrow> state \<Rightarrow> (string option \<times> state) + state" where
  "tryFinalize r s =
     (case addDatabaseStage r s of
        Inl thrown \<Rightarrow> Inl thrown
      | Inr (dbId, s1) \<Rightarrow>
          (case policyTextStage r s1 of
             Inl thrown \<Rightarrow> Inl thrown
           | Inr s2 \<Rightarrow>
               (case policyDocStage r s2 of
                  Inl thrown \<Rightarrow> Inl thrown
                | Inr s3 \<Rightarrow>
                    (case provisionStage r dbId s3 of
                       Inl thrown \<Rightarrow> Inl thrown
                     | Inr s4 \<Rightarrow> Inr (finishStage s4)))))"

definition handleSubmit :: "submit_responses \<Rightarrow> state \<Rightarrow> state" where
  "handleSubmit r s =
     (if \<not> googleConnected s then
        emit (ToastError ''Please grant Google Workspace access before proceeding.'') s
      else
        (case tryFinalize r (s\<lparr>isLoading := True\<rparr>) of
           Inr s' \<Rightarrow> s'
         | Inl (detail, s') \<Rightarrow>
             emit (ToastError (or_else detail ''Configuration failed. Check backend logs.'')) s')
        \<lparr>isLoading := False\<rparr>)"

section \<open>OAuthCallbackPage\<close>

text \<open>The query parameters \<^verbatim>\<open>code\<close> and \<^verbatim>\<open>error\<close>, as \<^verbatim>\<open>URLSearchParams.get\<close> returns them.\<close>

record callback_params =
  code :: "string option"
  error :: "string option"

text \<open>\<^verbatim>\<open>processOAuth\<close>; \<open>exchangeRes\<close> is the outcome of the exchange call, read only when
  the call is made.\<close>

definition processOAuth :: "callback_params \<Rightarrow> unit response \<Rightarrow> browser \<Rightarrow> browser" where
  "processOAuth params exchangeRes b =
     (if truthy (error params) then
        navigate ''/onboarding''
          (emit (ToastError ''Google Authentication failed or was cancelled.'') b)
      else
        (case code params of
           None \<Rightarrow>
             navigate ''/onboarding''
               (emit (ToastError ''No authorization code found in URL.'') b)
         | Some c \<Rightarrow>
             if c = [] then
               navigate ''/onboarding''
                 (emit (ToastError ''No authorization code found in URL.'') b)
             else
               (case getItem (localStorage b) KEY_COMPANY of
                  None \<Rightarrow>
                    navigate ''/onboarding''
                      (emit (ToastError ''Lost session context. Please try again.'') b)
                | Some companyId \<Rightarrow>
                    if companyId = [] then
                      navigate ''/onboarding''
                        (emit (ToastError ''Lost session context. Please try again.'') b)
                    else
                      let b1 = emit (ToastLoading ''Connecting your Google Workspace...'') b;
                          b2 = emit (Request (OAuthExchange c companyId)) b1
                      in (case exchangeRes of
                            Resolved _ \<Rightarrow>
                              navigate ''/onboarding''
                                (storeSet KEY_GOOGLE ''true''
                                  (emit (ToastSuccess ''Google connected successfully!'') b2))
                          | Rejected detail \<Rightarrow>
                              navigate ''/onboarding''
                                (emit (ToastError (or_else detail
                                   ''Failed to establish secure connection.'')) b2)))))"

text \<open>The three failures of the callback, as the messages the page reports them with.\<close>

definition AuthorizationDenied :: event where
  "AuthorizationDenied = ToastError ''Google Authentication failed or was cancelled.''"

definition AuthorizationMissingContext :: event where
  "AuthorizationMissingContext = ToastError ''Lost session context. Please try again.''"

definition AuthorizationNoCode :: event where
  "AuthorizationNoCode = ToastError ''No authorization code found in URL.''"

section \<open>The pages together\<close>

text \<open>
  What can happen in the browser: the user edits the form, clicks Back, Next, "Sign in
  with Google" or submits the resource form (each reaches the component only while it is
  on screen); the provider redirects to the callback page, which always ends by navigating
  to the onboarding page, constructed afresh; the login page's "Register here" clears the
  three keys and opens the onboarding page; the onboarding page is opened or reloaded.
\<close>

datatype action =
    SetFormData form
  | ClickBack
  | ClickNext "string response"
  | ClickGoogle
  | SubmitForm submit_responses
  | OAuthReturn callback_params "unit response"
  | RegisterHere
  | OpenOnboarding

definition browserOf :: "state \<Rightarrow> string \<Rightarrow> browser" where
  "browserOf s path = \<lparr>localStorage = localStorage s, trace = trace s, route = path\<rparr>"

definition registerHere :: "browser \<Rightarrow> browser" where
  "registerHere b =
     navigate ''/onboarding''
       (storeRemove KEY_FORM (storeRemove KEY_GOOGLE (storeRemove KEY_COMPANY b)))"

fun perform :: "json \<Rightarrow> action \<Rightarrow> state \<Rightarrow> state" where
  "perform js (SetFormData f) s = (if route s = ''/onboarding'' then s\<lparr>formData := f\<rparr> else s)"
| "perform js ClickBack s = (if route s = ''/onboarding'' then s\<lparr>step := 1\<rparr> else s)"
| "perform js (ClickNext compRes) s =
     (if route s = ''/onboarding'' then handleNext js compRes s else s)"
| "perform js ClickGoogle s = (if route s = ''/onboarding'' then handleGoogleOAuth js s else s)"
| "perform js (SubmitForm r) s = (if route s = ''/onboarding'' then handleSubmit r s else s)"
| "perform js (OAuthReturn params exchangeRes) s =
     mount js (processOAuth params exchangeRes (browserOf s ''/oauth/callback''))"
| "perform js RegisterHere s = mount js (registerHere (browserOf s ''/login''))"
| "perform js OpenOnboarding s = mount js (browserOf s ''/onboarding'')"

fun run :: "json \<Rightarrow> action list \<Rightarrow> state \<Rightarrow> state" where
  "run js [] s = s"
| "run js (a # as) s = run js as (perform js a s)"

text \<open>A browser with the given store in which nothing has happened yet.\<close>

definition freshBrowser :: "storage \<Rightarrow> browser" where
  "freshBrowser ls = \<lparr>localStorage = ls, trace = [], route = ''/onboarding''\<rparr>"


text \<open>The events a handler added to the trace.\<close>

definition newEvents :: "'a browser_scheme \<Rightarrow> 'b browser_scheme \<Rightarrow> event list" where
  "newEvents b b' = drop (length (trace b)) (trace b')"

text \<open>The validation failure of \<^verbatim>\<open>handleNext\<close>, as the message it is reported with.\<close>

definition ValidationError :: event where
  "ValidationError = ToastError ''Please fill required fields.''"

text \<open>The actions that reach the component on screen and keep it on screen or leave it;
  the other three construct the component afresh.\<close>

fun onPage :: "action \<Rightarrow> bool" where
  "onPage (OAuthReturn params exchangeRes) = False"
| "onPage RegisterHere = False"
| "onPage OpenOnboarding = False"
| "onPage a = True"

section \<open>The five-step onboarding wizard (the second OnboardingPage component)\<close>

record company_details =
  name :: string
  company_industry :: string
  hr_name :: string
  hr_email :: string
  hr_email_password :: string
  support_email :: string
  support_phone :: string
  support_whatsapp :: string
  support_message :: string

record policy_entry =
  title :: string
  description :: string
  content :: string

record db_config =
  db_title :: string
  db_description :: string
  db_type :: string
  spreadsheet_id :: string
  sheet_name :: string

text \<open>The two numbers of the provisioning response the page prints, as they print.\<close>

record provision_stats =
  passwords_generated :: string
  emails_sent :: string

datatype wizard_request =
    RegisterCompany company_details
  | AddTextPolicy string policy_entry
  | UploadDocPolicy string string
  | AddDatabaseConfig string db_config
  | ProvisionEmployees string string

datatype wizard_event =
    Sent wizard_request
  | Success string
  | Failure string

record wizard =
  wizardStep :: nat
  loading :: bool
  companyId :: string
  registrationDone :: bool
  company :: company_details
  textPolicies :: "policy_entry list"
  docFiles :: "string list"
  dbConfig :: db_config
  dbConnectionId :: string
  log :: "wizard_event list"

definition tell :: "wizard_event \<Rightarrow> wizard \<Rightarrow> wizard" where
  "tell e w = w\<lparr>log := log w @ [e]\<rparr>"

definition emptyCompany :: company_details where
  "emptyCompany = \<lparr>name = [], company_industry = [], hr_name = [], hr_email = [],
     hr_email_password = [], support_email = [], support_phone = [], support_whatsapp = [],
     support_message = []\<rparr>"

text \<open>The \<^verbatim>\<open>useState\<close> defaults; \<open>user_company_id\<close> is \<^verbatim>\<open>user?.company_id\<close>.\<close>

definition initialWizard :: "string option \<Rightarrow> wizard" where
  "initialWizard user_company_id =
     \<lparr>wizardStep = 0, loading = False, companyId = or_else user_company_id [],
      registrationDone = False, company = emptyCompany,
      textPolicies = [\<lparr>title = [], description = [], content = []\<rparr>], docFiles = [],
      dbConfig = \<lparr>db_title = ''Employee Database'', db_description = ''Main employee data'',
        db_type = ''google_sheets'', spreadsheet_id = [], sheet_name = []\<rparr>,
      dbConnectionId = [], log = []\<rparr>"

text \<open>\<^verbatim>\<open>handleRegisterCompany\<close>; the response carries \<^verbatim>\<open>data.id\<close> and \<^verbatim>\<open>data.name\<close>.\<close>

definition handleRegisterCompany :: "(string \<times> string) response \<Rightarrow> wizard \<Rightarrow> wizard" where
  "handleRegisterCompany res w =
     (let w1 = tell (Sent (RegisterCompany (company w))) (w\<lparr>loading := True\<rparr>);
          w2 = (case res of
                  Resolved (i, n) \<Rightarrow>
                    (tell (Success (''Company '' @ [CHR 0x22] @ n @ [CHR 0x22]
                             @ '' registered! ID: '' @ i))
                       (w1\<lparr>companyId := i\<rparr>))\<lparr>wizardStep := 1\<rparr>
                | Rejected detail \<Rightarrow> tell (Failure (or_else detail ''Registration failed'')) w1)
      in w2\<lparr>loading := False\<rparr>)"

text \<open>The loop of \<^verbatim>\<open>handleSaveTextPolicies\<close>: an entry without title or content is
  passed over; the first rejected call leaves the loop (\<open>Inl\<close>).\<close>

fun saveTextPolicies ::
  "(policy_entry \<Rightarrow> unit response) \<Rightarrow> policy_entry list \<Rightarrow> wizard \<Rightarrow> wizard + wizard" where
  "saveTextPolicies add [] w = Inr w"
| "saveTextPolicies add (policy # rest) w =
     (if title policy \<noteq> [] \<and> content policy \<noteq> [] then
        let w1 = tell (Sent (AddTextPolicy (companyId w) policy)) w
        in (case add policy of
              Resolved _ \<Rightarrow> saveTextPolicies add rest w1
            | Rejected _ \<Rightarrow> Inl w1)
      else saveTextPolicies add rest w)"

definition handleSaveTextPolicies :: "(policy_entry \<Rightarrow> unit response) \<Rightarrow> wizard \<Rightarrow> wizard" where
  "handleSaveTextPolicies add w =
     (case saveTextPolicies add (textPolicies w) (w\<lparr>loading := True\<rparr>) of
        Inr w' \<Rightarrow> (tell (Success ''Text policies saved!'') w')\<lparr>wizardStep := 2\<rparr>
      | Inl w' \<Rightarrow> tell (Failure ''Failed to save policies'') w')
     \<lparr>loading := False\<rparr>"

text \<open>The loop of \<^verbatim>\<open>handleUploadDocs\<close> (lines 120-126): one call per file, in order; the
  first rejected call leaves the loop (\<open>Inl\<close>).\<close>

fun uploadDocs :: "(string \<Rightarrow> unit response) \<Rightarrow> string list \<Rightarrow> wizard \<Rightarrow> wizard + wizard" where
  "uploadDocs upload [] w = Inr w"
| "uploadDocs upload (file # rest) w =
     (let w1 = tell (Sent (UploadDocPolicy (companyId w) file)) w
      in (case upload file of
            Resolved _ \<Rightarrow> uploadDocs upload rest w1
          | Rejected _ \<Rightarrow> Inl w1))"

text \<open>\<^verbatim>\<open>handleUploadDocs\<close> (lines 117-134).\<close>

definition handleUploadDocs :: "(string \<Rightarrow> unit response) \<Rightarrow> wizard \<Rightarrow> wizard" where
  "handleUploadDocs upload w =
     (case uploadDocs upload (docFiles w) (w\<lparr>loading := True\<rparr>) of
        Inr w' \<Rightarrow> (tell (Success ''Documents uploaded!'') w')\<lparr>wizardStep := 3\<rparr>
      | Inl w' \<Rightarrow> tell (Failure ''Upload failed'') w')
     \<lparr>loading := False\<rparr>"

definition DatabaseConnected :: wizard_event where
  "DatabaseConnected = Success ''Database connected & schema analyzed by AI!''"

text \<open>\<^verbatim>\<open>handleConnectDB\<close> (lines 138-159).\<close>

definition handleConnectDB :: "string response \<Rightarrow> wizard \<Rightarrow> wizard" where
  "handleConnectDB res w =
     (let w1 = tell (Sent (AddDatabaseConfig (companyId w) (dbConfig w))) (w\<lparr>loading := True\<rparr>);
          w2 = (case res of
                  Resolved i \<Rightarrow>
                    (tell DatabaseConnected (w1\<lparr>dbConnectionId := i\<rparr>))\<lparr>wizardStep := 4\<rparr>
                | Rejected detail \<Rightarrow> tell (Failure (or_else detail ''Connection failed'')) w1)
      in w2\<lparr>loading := False\<rparr>)"

text \<open>\<^verbatim>\<open>handleProvision\<close> (lines 163-176).\<close>

definition handleProvision :: "provision_stats response \<Rightarrow> wizard \<Rightarrow> wizard" where
  "handleProvision res w =
     (let w1 = tell (Sent (ProvisionEmployees (companyId w) (dbConnectionId w)))
                 (w\<lparr>loading := True\<rparr>);
          w2 = (case res of
                  Resolved stats \<Rightarrow>
                    (tell (Success (''Done! '' @ passwords_generated stats
                             @ '' passwords generated, '' @ emails_sent stats
                             @ '' emails sent.'')) w1)\<lparr>registrationDone := True\<rparr>
                | Rejected detail \<Rightarrow> tell (Failure (or_else detail ''Provisioning failed'')) w1)
      in w2\<lparr>loading := False\<rparr>)"

text \<open>
  What the user can do in the wizard. Each card is rendered at its own step only (lines
  241-392), so its inputs and buttons exist at that step only, and the provision button
  only until the registration is done.
\<close>

datatype wizard_action =
    SetCompany company_details
  | ClickRegister "(string \<times> string) response"
  | SetTextPolicies "policy_entry list"
  | ClickSavePolicies "policy_entry \<Rightarrow> unit response"
  | AddDocFiles "string list"
  | ClickUpload "string \<Rightarrow> unit response"
  | SetDbConfig db_config
  | ClickConnect "string response"
  | ClickProvision "provision_stats response"
  | ClickWizardBack

fun act :: "wizard_action \<Rightarrow> wizard \<Rightarrow> wizard" where
  "act (SetCompany c) w = (if wizardStep w = 0 then w\<lparr>company := c\<rparr> else w)"
| "act (ClickRegister res) w = (if wizardStep w = 0 then handleRegisterCompany res w else w)"
| "act (SetTextPolicies ps) w = (if wizardStep w = 1 then w\<lparr>textPolicies := ps\<rparr> else w)"
| "act (ClickSavePolicies add) w =
     (if wizardStep w = 1 then handleSaveTextPolicies add w else w)"
| "act (AddDocFiles files) w =
     (if wizardStep w = 2 then w\<lparr>docFiles := docFiles w @ files\<rparr> else w)"
| "act (ClickUpload upload) w = (if wizardStep w = 2 then handleUploadDocs upload w else w)"
| "act (SetDbConfig c) w = (if wizardStep w = 3 then w\<lparr>dbConfig := c\<rparr> else w)"
| "act (ClickConnect res) w = (if wizardStep w = 3 then handleConnectDB res w else w)"
| "act (ClickProvision res) w =
     (if wizardStep w = 4 \<and> \<not> registrationDone w then handleProvision res w else w)"
| "act ClickWizardBack w =
     (if wizardStep w = 1 then w\<lparr>wizardStep := 0\<rparr>
      else if wizardStep w = 2 then w\<lparr>wizardStep := 1\<rparr>
      else if wizardStep w = 3 then w\<lparr>wizardStep := 2\<rparr>
      else w)"

fun acts :: "wizard_action list \<Rightarrow> wizard \<Rightarrow> wizard" where
  "acts [] w = w"
| "acts (a # as) w = acts as (act a w)"

text \<open>The files for which an upload call is made: those up to and including the first
  one whose upload is rejected.\<close>

definition resolves :: "'a response \<Rightarrow> bool" where
  "resolves res = (case res of Resolved _ \<Rightarrow> True | Rejected _ \<Rightarrow> False)"

definition attempted :: "(string \<Rightarrow> unit response) \<Rightarrow> string list \<Rightarrow> string list" where
  "attempted upload files =
     takeWhile (\<lambda>f. resolves (upload f)) files
       @ take 1 (dropWhile (\<lambda>f. resolves (upload f)) files)"

section \<open>The provisioning endpoint\<close>

text \<open>
  Modelled from the spec: \<open>provisionCredentials\<close>, the backend endpoint behind
  \<^verbatim>\<open>POST /companies/{id}/databases/{dbId}/provision\<close>, whose code is not among the
  sources (the pages only call it and print its counts). For each employee record resolved
  from the bound source one credential is generated and one delivery attempt is made; the
  result carries both counts and, for each failed delivery, the employee reference and a
  reason.
\<close>

record failure =
  employeeRef :: string
  reason :: string

record provisioning_result =
  generatedCount :: nat
  deliveredCount :: nat
  failures :: "failure list"

datatype delivery = Delivered | Undelivered string

fun provisionCredentials :: "(string \<Rightarrow> delivery) \<Rightarrow> string list \<Rightarrow> provisioning_result" where
  "provisionCredentials deliver [] = \<lparr>generatedCount = 0, deliveredCount = 0, failures = []\<rparr>"
| "provisionCredentials deliver (employee # rest) =
     (let r = provisionCredentials deliver rest
      in (case deliver employee of
            Delivered \<Rightarrow>
              r\<lparr>generatedCount := generatedCount r + 1, deliveredCount := deliveredCount r + 1\<rparr>
          | Undelivered why \<Rightarrow>
              r\<lparr>generatedCount := generatedCount r + 1,
                failures := \<lparr>employeeRef = employee, reason = why\<rparr> # failures r\<rparr>))"

section \<open>Example sessions\<close>

text \<open>A concrete pair of JSON functions: the snapshot is the company name, and no string
  parses.\<close>

definition js0 :: json where
  "js0 = \<lparr>stringify = (\<lambda>f. companyName f), parse = (\<lambda>str. None)\<rparr>"

definition acme :: form where
  "acme = emptyForm\<lparr>companyName := ''Acme'', contactEmail := ''a@acme.com''\<rparr>"

definition grantedStore :: storage where
  "grantedStore = [KEY_COMPANY \<mapsto> ''C1'', KEY_GOOGLE \<mapsto> ''true'']"

definition corruptStore :: storage where
  "corruptStore = [KEY_COMPANY \<mapsto> ''C1'', KEY_GOOGLE \<mapsto> ''true'', KEY_FORM \<mapsto> ''{broken'']"

text \<open>The user fills the profile, registers (the backend answers with id C1), and starts
  the Google sign-in.\<close>

definition registeredRun :: "action list" where
  "registeredRun = [SetFormData acme, ClickNext (Resolved ''C1'')]"

definition denied :: callback_params where
  "denied = \<lparr>code = None, error = Some ''access_denied''\<rparr>"

text \<open>... and the provider sends the user back with a cancellation.\<close>

definition deniedRun :: "action list" where
  "deniedRun = registeredRun @ [ClickGoogle, OAuthReturn denied (Resolved ())]"

text \<open>After the cancellation the user fills the profile again and clicks Next; the
  backend answers with id C2.\<close>

definition retryRun :: "action list" where
  "retryRun = [SetFormData acme, ClickNext (Resolved ''C2'')]"

text \<open>Events that neither register a company nor write the company key.\<close>

definition quiet :: "event list \<Rightarrow> bool" where
  "quiet es = (\<forall>e \<in> set es. (\<forall>n i h m. e \<noteq> Request (Register n i h m))
                 \<and> (\<forall>v. e \<noteq> StoreSet KEY_COMPANY v))"

text \<open>A callback that carries a code and no error.\<close>

definition granted :: callback_params where
  "granted = \<lparr>code = Some ''X'', error = None\<rparr>"

text \<open>Three employees, one of them with an address the mail is refused for.\<close>

definition staff :: "string list" where
  "staff = [''E1'', ''E7'', ''E9'']"

definition mailer :: "string \<Rightarrow> delivery" where
  "mailer e = (if e = ''E7'' then Undelivered ''invalid_email'' else Delivered)"

text \<open>All four calls of \<^verbatim>\<open>handleSubmit\<close> resolve; the database call answers with id D1.\<close>

definition allResolved :: submit_responses where
  "allResolved = \<lparr>dbRes = Resolved ''D1'', textRes = Resolved (), docRes = Resolved (),
     provRes = Resolved ()\<rparr>"

text \<open>A backend that rejects the upload of b.pdf, and a wizard session that registers,
  saves no text policy, picks three files and uploads them.\<close>

definition flaky :: "string \<Rightarrow> unit response" where
  "flaky file = (if file = ''b.pdf'' then Rejected None else Resolved ())"

definition uploadRun :: "wizard_action list" where
  "uploadRun = [ClickRegister (Resolved (''C1'', ''Acme'')), ClickSavePolicies (\<lambda>p. Resolved ()),
     AddDocFiles [''a.pdf'', ''b.pdf'', ''c.pdf''], ClickUpload flaky]"






text \<open>A callback that carries neither a code nor an error.\<close>

definition bare :: callback_params where
  "bare = \<lparr>code = None, error = None\<rparr>"

section \<open>Resumption\<close>

text \<open>
  C1. When the store holds a company id (a non-empty string, which is how the page tests
  that it is set) and the granted flag \<^verbatim>\<open>'true'\<close>, the page constructed over that store
  comes up at step 2 with Google connected and the stored id, which renders the
  resource-configuration screen; and the mount effect ends there from whatever step and
  other component state it is run in.
\<close>

theorem resume_yields_ConfiguringResources:
  assumes "truthy (getItem (localStorage b) KEY_COMPANY)"
    and "getItem (localStorage b) KEY_GOOGLE = Some ''true''"
  shows "step (mount js b) = 2 \<and> googleConnected (mount js b)
    \<and> currentStep (mount js b) = ConfiguringResources
    \<and> globalCompanyId (mount js b) = getItem (localStorage b) KEY_COMPANY
    \<and> (\<forall>s. localStorage s = localStorage b \<longrightarrow>
          step (restore js s) = 2 \<and> googleConnected (restore js s)
        \<and> currentStep (restore js s) = ConfiguringResources
        \<and> globalCompanyId (restore js s) = getItem (localStorage b) KEY_COMPANY)"
  using assms
  by (simp add: mount_def initial_def restore_def currentStep_def Let_def split: option.splits)

theorem resume_yields_ConfiguringResources_witness:
  "truthy (getItem (localStorage (freshBrowser grantedStore)) KEY_COMPANY)
   \<and> getItem (localStorage (freshBrowser grantedStore)) KEY_GOOGLE = Some ''true''
   \<and> step (mount js0 (freshBrowser grantedStore)) = 2
   \<and> googleConnected (mount js0 (freshBrowser grantedStore))
   \<and> currentStep (mount js0 (freshBrowser grantedStore)) = ConfiguringResources
   \<and> globalCompanyId (mount js0 (freshBrowser grantedStore)) = Some ''C1''"
proof -
  have stored: "getItem (localStorage (freshBrowser grantedStore)) KEY_COMPANY = Some ''C1''"
    by (simp add: freshBrowser_def grantedStore_def getItem_def KEY_COMPANY_def KEY_GOOGLE_def)
  have present: "truthy (getItem (localStorage (freshBrowser grantedStore)) KEY_COMPANY)"
    by (simp add: stored truthy_def)
  have flag: "getItem (localStorage (freshBrowser grantedStore)) KEY_GOOGLE = Some ''true''"
    by (simp add: freshBrowser_def grantedStore_def getItem_def KEY_COMPANY_def KEY_GOOGLE_def)
  note resumed = resume_yields_ConfiguringResources [OF present flag, of js0]
  show ?thesis
    using present flag resumed [unfolded stored] by blast
qed

text \<open>
  C10. When the session is resumed (company id and granted flag in the store) and the
  stored form snapshot does not parse, the failure is swallowed: the company id is
  restored, Google counts as connected, the page is at step 2 on the resource form, the
  form fields are what they were (the defaults, on a fresh component), and neither the
  store nor the trace has changed.
\<close>

theorem corrupt_snapshot_swallowed:
  assumes "truthy (getItem (localStorage s) KEY_COMPANY)"
    and "getItem (localStorage s) KEY_GOOGLE = Some ''true''"
    and "getItem (localStorage s) KEY_FORM = Some str"
    and "parse js str = None"
  shows "restore js s
      = s\<lparr>globalCompanyId := getItem (localStorage s) KEY_COMPANY, googleConnected := True,
          step := 2\<rparr>
    \<and> currentStep (restore js s) = ConfiguringResources
    \<and> formData (restore js s) = formData s
    \<and> localStorage (restore js s) = localStorage s
    \<and> trace (restore js s) = trace s
    \<and> formData (mount js (freshBrowser (localStorage s))) = emptyForm"
  using assms
  by (simp add: restore_def mount_def initial_def freshBrowser_def currentStep_def Let_def)

theorem corrupt_snapshot_swallowed_witness:
  "truthy (getItem (localStorage (initial (freshBrowser corruptStore))) KEY_COMPANY)
   \<and> parse js0 ''{broken'' = None
   \<and> currentStep (restore js0 (initial (freshBrowser corruptStore))) = ConfiguringResources
   \<and> formData (restore js0 (initial (freshBrowser corruptStore))) = emptyForm
   \<and> localStorage (restore js0 (initial (freshBrowser corruptStore))) = corruptStore"
proof -
  have company: "truthy (getItem (localStorage (initial (freshBrowser corruptStore))) KEY_COMPANY)"
    by (simp add: initial_def freshBrowser_def corruptStore_def getItem_def truthy_def
        KEY_COMPANY_def KEY_GOOGLE_def KEY_FORM_def)
  have granted: "getItem (localStorage (initial (freshBrowser corruptStore))) KEY_GOOGLE
      = Some ''true''"
    by (simp add: initial_def freshBrowser_def corruptStore_def getItem_def
        KEY_COMPANY_def KEY_GOOGLE_def KEY_FORM_def)
  have snapshot: "getItem (localStorage (initial (freshBrowser corruptStore))) KEY_FORM
      = Some ''{broken''"
    by (simp add: initial_def freshBrowser_def corruptStore_def getItem_def
        KEY_COMPANY_def KEY_GOOGLE_def KEY_FORM_def)
  have unparseable: "parse js0 ''{broken'' = None"
    by (simp add: js0_def)
  have fresh: "formData (initial (freshBrowser corruptStore)) = emptyForm"
    "localStorage (initial (freshBrowser corruptStore)) = corruptStore"
    by (simp_all add: initial_def freshBrowser_def)
  from corrupt_snapshot_swallowed [OF company granted snapshot unparseable]
  show ?thesis
    using company unparseable fresh by (simp add: currentStep_def)
qed

section \<open>The redirect\<close>

lemmas browser_ops = emit_def storeSet_def storeRemove_def navigate_def locationAssign_def





lemma tryFinalize_Inl:
  "tryFinalize r s = Inl (d, s') \<Longrightarrow>
     localStorage s' = localStorage s \<and> route s' = route s
       \<and> globalCompanyId s' = globalCompanyId s"
  by (auto simp: tryFinalize_def addDatabaseStage_def policyTextStage_def policyDocStage_def
      provisionStage_def Let_def emit_def
      split: sum.splits if_splits response.splits option.splits prod.splits)






lemmas eval_defs =
  registeredRun_def deniedRun_def denied_def acme_def js0_def emptyForm_def mount_def
  restore_def initial_def freshBrowser_def handleNext_def handleGoogleOAuth_def browser_ops
  getItem_def setItem_def removeItem_def truthy_def KEY_COMPANY_def KEY_GOOGLE_def
  KEY_FORM_def Let_def newEvents_def processOAuth_def browserOf_def


section \<open>The profile step\<close>

text \<open>
  C8. At the profile step, \<^verbatim>\<open>handleNext\<close> with an empty company name or an empty
  contact email only reports the validation failure: it sends no request and changes
  neither the store nor the component. With both fields non-empty the validation lets the
  call through: with a company id held the page moves to step 2, without one the register
  request is sent first and, when it resolves, the page moves to step 2 with the new id.
\<close>

theorem profile_validation:
  assumes "step s = 1"
  shows "(companyName (formData s) = [] \<or> contactEmail (formData s) = [] \<longrightarrow>
            handleNext js compRes s = emit ValidationError s
          \<and> newEvents s (handleNext js compRes s) = [ValidationError]
          \<and> localStorage (handleNext js compRes s) = localStorage s)
    \<and> (companyName (formData s) \<noteq> [] \<and> contactEmail (formData s) \<noteq> [] \<longrightarrow>
            (truthy (globalCompanyId s) \<longrightarrow> handleNext js compRes s = s\<lparr>step := 2\<rparr>)
          \<and> (\<not> truthy (globalCompanyId s) \<longrightarrow>
                hd (newEvents s (handleNext js compRes s))
                  = Request (Register (companyName (formData s)) (industry (formData s))
                      (contactName (formData s)) (contactEmail (formData s)))
              \<and> (\<forall>i. compRes = Resolved i \<longrightarrow>
                    step (handleNext js compRes s) = 2
                  \<and> globalCompanyId (handleNext js compRes s) = Some i)))"
  using assms
  by (auto simp: handleNext_def ValidationError_def browser_ops newEvents_def Let_def
      split: response.splits)

lemma handleNext_held:
  "truthy (globalCompanyId s) \<Longrightarrow>
     handleNext js compRes s = s\<lparr>step := 2\<rparr> \<or> handleNext js compRes s = emit ValidationError s"
  by (simp add: handleNext_def ValidationError_def)

lemma tryFinalize_quiet:
  "tryFinalize r s = Inl (d, s') \<or> tryFinalize r s = Inr s' \<Longrightarrow>
     globalCompanyId s' = globalCompanyId s \<and> (\<exists>es. trace s' = trace s @ es \<and> quiet es)"
  by (auto simp: tryFinalize_def addDatabaseStage_def policyTextStage_def policyDocStage_def
      provisionStage_def finishStage_def Let_def browser_ops quiet_def
      split: sum.splits if_splits response.splits option.splits prod.splits)

lemma perform_held:
  assumes "truthy (globalCompanyId s)" and "onPage a"
  shows "globalCompanyId (perform js a s) = globalCompanyId s
    \<and> (\<exists>es. trace (perform js a s) = trace s @ es \<and> quiet es)"
proof (cases a)
  case (ClickNext compRes)
  then show ?thesis
    using handleNext_held [OF assms(1), of js compRes]
    by (auto simp: quiet_def emit_def ValidationError_def)
next
  case ClickGoogle
  then show ?thesis
    by (auto simp: quiet_def handleGoogleOAuth_def browser_ops KEY_COMPANY_def KEY_FORM_def)
next
  case (SubmitForm r)
  show ?thesis
  proof (cases "tryFinalize r (s\<lparr>isLoading := True\<rparr>)")
    case (Inl p)
    then obtain d s' where "tryFinalize r (s\<lparr>isLoading := True\<rparr>) = Inl (d, s')"
      by (cases p) simp
    with tryFinalize_quiet [of r "s\<lparr>isLoading := True\<rparr>" d s'] SubmitForm show ?thesis
      by (auto simp: handleSubmit_def quiet_def emit_def)
  next
    case (Inr s')
    with tryFinalize_quiet [of r "s\<lparr>isLoading := True\<rparr>" _ s'] SubmitForm show ?thesis
      by (auto simp: handleSubmit_def quiet_def emit_def)
  qed
qed (use assms(2) in \<open>auto simp: quiet_def\<close>)

lemma run_held:
  "truthy (globalCompanyId s) \<Longrightarrow> list_all onPage as \<Longrightarrow>
     globalCompanyId (run js as s) = globalCompanyId s
       \<and> (\<exists>es. trace (run js as s) = trace s @ es \<and> quiet es)"
proof (induction as arbitrary: s)
  case Nil
  then show ?case by (simp add: quiet_def)
next
  case (Cons a as)
  from Cons.prems have a: "onPage a" and as: "list_all onPage as" by simp_all
  from perform_held [OF Cons.prems(1) a, of js]
  obtain es where p: "globalCompanyId (perform js a s) = globalCompanyId s"
    "trace (perform js a s) = trace s @ es" "quiet es" by blast
  from Cons.IH [of "perform js a s"] p(1) Cons.prems(1) as
  obtain es' where q: "globalCompanyId (run js as (perform js a s)) = globalCompanyId s"
    "trace (run js as (perform js a s)) = trace (perform js a s) @ es'" "quiet es'" by auto
  have "quiet (es @ es')" using p(3) q(3) by (auto simp: quiet_def)
  with p q show ?case by auto
qed

text \<open>
  C3 (as amended). While the component stays on screen (no reload, no return from a
  redirect), once it holds a company id \<^verbatim>\<open>handleNext\<close> short-circuits (it only moves to
  step 2 or reports the validation failure), no user action sends a register request or
  writes the company key again, and the id held does not change.
\<close>

theorem company_registered_once_on_page:
  assumes "truthy (globalCompanyId s)" and "list_all onPage as"
  shows "(handleNext js compRes s = s\<lparr>step := 2\<rparr> \<or> handleNext js compRes s = emit ValidationError s)
    \<and> globalCompanyId (run js as s) = globalCompanyId s
    \<and> (\<forall>n i h m. Request (Register n i h m) \<notin> set (newEvents s (run js as s)))
    \<and> (\<forall>v. StoreSet KEY_COMPANY v \<notin> set (newEvents s (run js as s)))"
proof -
  from run_held [OF assms, of js]
  obtain es where r: "globalCompanyId (run js as s) = globalCompanyId s"
    "trace (run js as s) = trace s @ es" "quiet es" by blast
  from r(2) have "newEvents s (run js as s) = es"
    by (simp add: newEvents_def)
  with r(1,3) handleNext_held [OF assms(1), of js compRes] show ?thesis
    unfolding quiet_def by blast
qed

theorem profile_validation_witness:
  "step (initial (freshBrowser Map.empty)) = 1
   \<and> companyName (formData (initial (freshBrowser Map.empty))) = []
   \<and> handleNext js0 (Resolved ''C1'') (initial (freshBrowser Map.empty))
       = emit ValidationError (initial (freshBrowser Map.empty))
   \<and> newEvents (initial (freshBrowser Map.empty))
        (handleNext js0 (Resolved ''C1'') (initial (freshBrowser Map.empty))) = [ValidationError]"
proof -
  have first: "step (initial (freshBrowser Map.empty)) = 1"
    by (simp add: initial_def)
  have blank: "companyName (formData (initial (freshBrowser Map.empty))) = []"
    by (simp add: initial_def emptyForm_def)
  from profile_validation [OF first, of js0 "Resolved ''C1''"] blank first
  show ?thesis by blast
qed

theorem company_registered_once_on_page_witness:
  "truthy (globalCompanyId (run js0 registeredRun (mount js0 (freshBrowser Map.empty))))
   \<and> list_all onPage [ClickBack, ClickNext (Resolved ''C2'')]
   \<and> globalCompanyId (run js0 [ClickBack, ClickNext (Resolved ''C2'')]
        (run js0 registeredRun (mount js0 (freshBrowser Map.empty)))) = Some ''C1''"
proof -
  have held: "globalCompanyId (run js0 registeredRun (mount js0 (freshBrowser Map.empty)))
      = Some ''C1''"
    by (simp add: eval_defs)
  have present: "truthy (globalCompanyId (run js0 registeredRun (mount js0 (freshBrowser Map.empty))))"
    by (simp add: held truthy_def)
  have ui: "list_all onPage [ClickBack, ClickNext (Resolved ''C2'')]"
    by simp
  from company_registered_once_on_page [OF present ui, of js0] held present ui
  show ?thesis by simp
qed

text \<open>
  C3 as stated fails. The session store holds company id C1 when the provider returns the
  user with a cancellation; the page is constructed afresh without the id, so Next sends a
  second register request and the company key is overwritten with C2.
\<close>

theorem reregistration_after_denied_redirect:
  "getItem (localStorage (run js0 deniedRun (mount js0 (freshBrowser Map.empty)))) KEY_COMPANY
     = Some ''C1''
   \<and> newEvents (run js0 deniedRun (mount js0 (freshBrowser Map.empty)))
        (run js0 retryRun (run js0 deniedRun (mount js0 (freshBrowser Map.empty))))
     = [Request (Register ''Acme'' [] [] ''a@acme.com''), StoreSet KEY_COMPANY ''C2'',
        StoreSet KEY_FORM ''Acme'']
   \<and> getItem (localStorage (run js0 retryRun
        (run js0 deniedRun (mount js0 (freshBrowser Map.empty))))) KEY_COMPANY = Some ''C2''"
  by (simp add: eval_defs retryRun_def)

section \<open>The callback\<close>

text \<open>
  C4 (as amended). A callback that carries an error indicator is reported as
  AuthorizationDenied and sent back to the onboarding page; no request is made and the
  store, the company id with it, is unchanged. The onboarding page is then constructed
  afresh from the store: unless the granted flag is already there, it shows the profile
  step and holds no company id.
\<close>

theorem denied_callback:
  assumes "truthy (error params)"
  shows "newEvents b (processOAuth params exchangeRes b)
           = [AuthorizationDenied, Navigate ''/onboarding'']
    \<and> localStorage (processOAuth params exchangeRes b) = localStorage b
    \<and> (getItem (localStorage b) KEY_GOOGLE \<noteq> Some ''true'' \<longrightarrow>
          currentStep (mount js (processOAuth params exchangeRes b)) = CollectingProfile
        \<and> globalCompanyId (mount js (processOAuth params exchangeRes b)) = None)"
  using assms
  by (simp add: processOAuth_def AuthorizationDenied_def browser_ops newEvents_def mount_def
      restore_def initial_def currentStep_def Let_def)

theorem denied_callback_witness:
  "truthy (error denied)
   \<and> newEvents (freshBrowser [KEY_COMPANY \<mapsto> ''C1''])
        (processOAuth denied (Resolved ()) (freshBrowser [KEY_COMPANY \<mapsto> ''C1'']))
       = [AuthorizationDenied, Navigate ''/onboarding'']
   \<and> getItem (localStorage (processOAuth denied (Resolved ())
        (freshBrowser [KEY_COMPANY \<mapsto> ''C1'']))) KEY_COMPANY = Some ''C1''"
proof -
  have cancelled: "truthy (error denied)"
    by (simp add: denied_def truthy_def)
  have "getItem (localStorage (freshBrowser [KEY_COMPANY \<mapsto> ''C1''])) KEY_COMPANY = Some ''C1''"
    by (simp add: freshBrowser_def getItem_def)
  with denied_callback [OF cancelled, of "freshBrowser [KEY_COMPANY \<mapsto> ''C1'']" "Resolved ()"]
    cancelled
  show ?thesis by simp
qed

text \<open>
  C4 as stated fails. Before the redirect the page is at AwaitingAuthorization; after the
  provider's cancellation it is at CollectingProfile, with no company id held.
\<close>

theorem denied_redirect_returns_to_profile:
  "currentStep (run js0 registeredRun (mount js0 (freshBrowser Map.empty)))
     = AwaitingAuthorization
   \<and> currentStep (run js0 deniedRun (mount js0 (freshBrowser Map.empty))) = CollectingProfile
   \<and> globalCompanyId (run js0 deniedRun (mount js0 (freshBrowser Map.empty))) = None"
  by (simp add: eval_defs currentStep_def)

text \<open>
  C5 (as amended). A callback that finds no company id in the store fails without a
  request and without touching the store. The error indicator and the missing code are
  checked before the store is read: a callback with an error indicator is reported as
  AuthorizationDenied, one without it and without a code as a missing code, and one that
  carries a code and no error indicator as AuthorizationMissingContext.
\<close>

theorem callback_without_company:
  assumes "\<not> truthy (getItem (localStorage b) KEY_COMPANY)"
  shows "localStorage (processOAuth params exchangeRes b) = localStorage b
    \<and> (newEvents b (processOAuth params exchangeRes b)
          = [AuthorizationDenied, Navigate ''/onboarding'']
       \<or> newEvents b (processOAuth params exchangeRes b)
          = [AuthorizationNoCode, Navigate ''/onboarding'']
       \<or> newEvents b (processOAuth params exchangeRes b)
          = [AuthorizationMissingContext, Navigate ''/onboarding''])
    \<and> (truthy (error params) \<longrightarrow>
          newEvents b (processOAuth params exchangeRes b)
            = [AuthorizationDenied, Navigate ''/onboarding''])
    \<and> (\<not> truthy (error params) \<and> \<not> truthy (code params) \<longrightarrow>
          newEvents b (processOAuth params exchangeRes b)
            = [AuthorizationNoCode, Navigate ''/onboarding''])
    \<and> (\<not> truthy (error params) \<and> truthy (code params) \<longrightarrow>
          newEvents b (processOAuth params exchangeRes b)
            = [AuthorizationMissingContext, Navigate ''/onboarding''])"
  using assms
  by (auto simp: processOAuth_def AuthorizationDenied_def AuthorizationNoCode_def
      AuthorizationMissingContext_def browser_ops newEvents_def truthy_def
      split: option.splits)

theorem callback_without_company_witness:
  "\<not> truthy (getItem (localStorage (freshBrowser Map.empty)) KEY_COMPANY)
   \<and> localStorage (processOAuth granted (Resolved ()) (freshBrowser Map.empty)) = Map.empty
   \<and> newEvents (freshBrowser Map.empty) (processOAuth granted (Resolved ()) (freshBrowser Map.empty))
       = [AuthorizationMissingContext, Navigate ''/onboarding'']
   \<and> newEvents (freshBrowser Map.empty) (processOAuth bare (Resolved ()) (freshBrowser Map.empty))
       = [AuthorizationNoCode, Navigate ''/onboarding'']
   \<and> newEvents (freshBrowser Map.empty) (processOAuth denied (Resolved ()) (freshBrowser Map.empty))
       = [AuthorizationDenied, Navigate ''/onboarding'']"
proof -
  have absent: "\<not> truthy (getItem (localStorage (freshBrowser Map.empty)) KEY_COMPANY)"
    by (simp add: freshBrowser_def getItem_def truthy_def)
  have coded: "\<not> truthy (error granted) \<and> truthy (code granted)"
    by (simp add: granted_def truthy_def)
  have uncoded: "\<not> truthy (error bare) \<and> \<not> truthy (code bare)"
    by (simp add: bare_def truthy_def)
  have cancelled: "truthy (error denied)"
    by (simp add: denied_def truthy_def)
  have empty: "localStorage (freshBrowser Map.empty) = Map.empty"
    by (simp add: freshBrowser_def)
  from callback_without_company [OF absent, of granted "Resolved ()"] coded empty
  have with_code: "localStorage (processOAuth granted (Resolved ()) (freshBrowser Map.empty))
      = Map.empty"
    "newEvents (freshBrowser Map.empty) (processOAuth granted (Resolved ()) (freshBrowser Map.empty))
      = [AuthorizationMissingContext, Navigate ''/onboarding'']"
    by simp_all
  from callback_without_company [OF absent, of bare "Resolved ()"] uncoded
  have without_code: "newEvents (freshBrowser Map.empty)
      (processOAuth bare (Resolved ()) (freshBrowser Map.empty))
      = [AuthorizationNoCode, Navigate ''/onboarding'']"
    by blast
  from callback_without_company [OF absent, of denied "Resolved ()"] cancelled
  have with_error: "newEvents (freshBrowser Map.empty)
      (processOAuth denied (Resolved ()) (freshBrowser Map.empty))
      = [AuthorizationDenied, Navigate ''/onboarding'']"
    by blast
  from absent with_code without_code with_error show ?thesis
    by blast
qed

text \<open>
  C5 as stated fails. With no company id in the store, a callback that carries an error
  indicator is reported as AuthorizationDenied, not as AuthorizationMissingContext.
\<close>

theorem denied_callback_without_company:
  "getItem (localStorage (freshBrowser Map.empty)) KEY_COMPANY = None
   \<and> newEvents (freshBrowser Map.empty) (processOAuth denied (Resolved ()) (freshBrowser Map.empty))
       = [AuthorizationDenied, Navigate ''/onboarding'']
   \<and> AuthorizationMissingContext
       \<notin> set (trace (processOAuth denied (Resolved ()) (freshBrowser Map.empty)))"
  by (simp add: eval_defs AuthorizationDenied_def AuthorizationMissingContext_def)

section \<open>Provisioning results\<close>

text \<open>
  C9. Every result of \<open>provisionCredentials\<close> carries the two counts and a list of failures
  that each name an employee reference of the source and the reason its delivery failed; the
  delivered count is at most the generated count, which is the number of employees, and the
  deliveries and the failures add up to it.
\<close>

theorem provisioning_counts:
  "deliveredCount (provisionCredentials deliver employees)
     \<le> generatedCount (provisionCredentials deliver employees)
   \<and> generatedCount (provisionCredentials deliver employees) = length employees
   \<and> deliveredCount (provisionCredentials deliver employees)
       + length (failures (provisionCredentials deliver employees))
       = generatedCount (provisionCredentials deliver employees)
   \<and> (\<forall>f \<in> set (failures (provisionCredentials deliver employees)).
         employeeRef f \<in> set employees \<and> deliver (employeeRef f) = Undelivered (reason f))"
proof (induction employees)
  case Nil
  then show ?case by simp
next
  case (Cons e es)
  then show ?case
    by (cases "deliver e") (auto simp: Let_def)
qed

theorem provisioning_counts_witness:
  "provisionCredentials mailer staff
     = \<lparr>generatedCount = 3, deliveredCount = 2,
        failures = [\<lparr>employeeRef = ''E7'', reason = ''invalid_email''\<rparr>]\<rparr>
   \<and> deliveredCount (provisionCredentials mailer staff)
       \<le> generatedCount (provisionCredentials mailer staff)
   \<and> generatedCount (provisionCredentials mailer staff) = length staff"
proof -
  have "provisionCredentials mailer staff
     = \<lparr>generatedCount = 3, deliveredCount = 2,
        failures = [\<lparr>employeeRef = ''E7'', reason = ''invalid_email''\<rparr>]\<rparr>"
    by (simp add: staff_def mailer_def Let_def)
  with provisioning_counts [of mailer staff] show ?thesis
    by blast
qed

section \<open>Policy uploads\<close>

lemma uploadDocs_log:
  "log (case uploadDocs upload files w of Inl w' \<Rightarrow> w' | Inr w' \<Rightarrow> w')
     = log w @ map (\<lambda>f. Sent (UploadDocPolicy (companyId w) f)) (attempted upload files)"
  by (induction files arbitrary: w)
    (auto simp: attempted_def resolves_def tell_def Let_def split: response.splits)

lemma uploadDocs_fields:
  "uploadDocs upload files w = Inl w' \<or> uploadDocs upload files w = Inr w' \<Longrightarrow>
     wizardStep w' = wizardStep w"
  by (induction files arbitrary: w)
    (auto simp: tell_def Let_def split: response.splits)

lemma uploadDocs_Inr:
  "(\<exists>w'. uploadDocs upload files w = Inr w') = list_all (\<lambda>f. resolves (upload f)) files"
  by (induction files arbitrary: w)
    (auto simp: resolves_def Let_def split: response.splits)

lemma upload_stops_at_first_failure:
  "log (handleUploadDocs upload w)
     = log w @ map (\<lambda>f. Sent (UploadDocPolicy (companyId w) f)) (attempted upload (docFiles w))
         @ [if list_all (\<lambda>f. resolves (upload f)) (docFiles w)
            then Success ''Documents uploaded!'' else Failure ''Upload failed'']
   \<and> wizardStep (handleUploadDocs upload w)
       = (if list_all (\<lambda>f. resolves (upload f)) (docFiles w) then 3 else wizardStep w)"
proof (cases "uploadDocs upload (docFiles w) (w\<lparr>loading := True\<rparr>)")
  case (Inl w')
  with uploadDocs_Inr [of upload "docFiles w" "w\<lparr>loading := True\<rparr>"]
  have no: "\<not> list_all (\<lambda>f. resolves (upload f)) (docFiles w)" by auto
  from uploadDocs_log [of upload "docFiles w" "w\<lparr>loading := True\<rparr>"] Inl
  have l: "log w' = log w @ map (\<lambda>f. Sent (UploadDocPolicy (companyId w) f)) (attempted upload (docFiles w))"
    by simp
  from uploadDocs_fields [of upload "docFiles w" "w\<lparr>loading := True\<rparr>" w'] Inl
  have "wizardStep w' = wizardStep w"
    by simp
  with Inl no l show ?thesis
    by (simp add: handleUploadDocs_def tell_def)
next
  case (Inr w')
  with uploadDocs_Inr [of upload "docFiles w" "w\<lparr>loading := True\<rparr>"]
  have yes: "list_all (\<lambda>f. resolves (upload f)) (docFiles w)" by auto
  from uploadDocs_log [of upload "docFiles w" "w\<lparr>loading := True\<rparr>"] Inr
  have l: "log w' = log w @ map (\<lambda>f. Sent (UploadDocPolicy (companyId w) f)) (attempted upload (docFiles w))"
    by simp
  with Inr yes show ?thesis
    by (simp add: handleUploadDocs_def tell_def)
qed

lemma tryFinalize_rejected_document:
  assumes "policyFile (formData s) = Some f" and "docRes r = Rejected d"
  shows "\<exists>d' s'. tryFinalize r s = Inl (d', s')
     \<and> (\<exists>es. trace s' = trace s @ es \<and> (\<forall>c i. Request (Provision c i) \<notin> set es))"
  using assms
  by (auto simp: tryFinalize_def addDatabaseStage_def policyTextStage_def policyDocStage_def
      Let_def emit_def split: response.splits)

lemma handleSubmit_rejected_document:
  assumes "googleConnected s" and "policyFile (formData s) = Some f" and "docRes r = Rejected d"
  shows "route (handleSubmit r s) = route s \<and> localStorage (handleSubmit r s) = localStorage s
    \<and> (\<forall>c i. Request (Provision c i) \<notin> set (newEvents s (handleSubmit r s)))
    \<and> (\<exists>m. last (trace (handleSubmit r s)) = ToastError m)"
proof -
  from tryFinalize_rejected_document [of "s\<lparr>isLoading := True\<rparr>" f r d] assms(2,3)
  obtain d' s' where t: "tryFinalize r (s\<lparr>isLoading := True\<rparr>) = Inl (d', s')"
    and p: "\<exists>es. trace s' = trace s @ es \<and> (\<forall>c i. Request (Provision c i) \<notin> set es)"
    by auto
  from tryFinalize_Inl [OF t] have "localStorage s' = localStorage s" "route s' = route s"
    by simp_all
  with assms(1) t p show ?thesis
    by (auto simp: handleSubmit_def emit_def newEvents_def)
qed

text \<open>
  C7 (as amended). Each document upload is a separate request, made in list order; the
  first rejected upload ends the loop, so the files after it are not uploaded, the failure
  is reported and the wizard stays on the document step; only when every upload resolves
  does the wizard advance. In the two-step page a rejected document upload ends the
  finalize with an error report: nothing is provisioned, the store is kept and the page
  stays.
\<close>

theorem upload_failure_stops_workflow:
  "log (handleUploadDocs upload w)
     = log w @ map (\<lambda>f. Sent (UploadDocPolicy (companyId w) f)) (attempted upload (docFiles w))
         @ [if list_all (\<lambda>f. resolves (upload f)) (docFiles w)
            then Success ''Documents uploaded!'' else Failure ''Upload failed'']
   \<and> wizardStep (handleUploadDocs upload w)
       = (if list_all (\<lambda>f. resolves (upload f)) (docFiles w) then 3 else wizardStep w)
   \<and> (googleConnected s \<and> policyFile (formData s) = Some f \<and> docRes r = Rejected d \<longrightarrow>
         route (handleSubmit r s) = route s \<and> localStorage (handleSubmit r s) = localStorage s
       \<and> (\<forall>c i. Request (Provision c i) \<notin> set (newEvents s (handleSubmit r s)))
       \<and> (\<exists>m. last (trace (handleSubmit r s)) = ToastError m))"
  using upload_stops_at_first_failure [of upload w] handleSubmit_rejected_document [of s f r d]
  by blast

theorem upload_failure_stops_workflow_witness:
  "googleConnected (perform js0 (SetFormData (acme\<lparr>policyFile := Some ''p.pdf''\<rparr>))
      (mount js0 (freshBrowser grantedStore)))
   \<and> docRes (allResolved\<lparr>docRes := Rejected None\<rparr>) = Rejected None
   \<and> route (handleSubmit (allResolved\<lparr>docRes := Rejected None\<rparr>)
        (perform js0 (SetFormData (acme\<lparr>policyFile := Some ''p.pdf''\<rparr>))
          (mount js0 (freshBrowser grantedStore)))) = ''/onboarding''
   \<and> (\<forall>c i. Request (Provision c i) \<notin> set (newEvents
        (perform js0 (SetFormData (acme\<lparr>policyFile := Some ''p.pdf''\<rparr>))
          (mount js0 (freshBrowser grantedStore)))
        (handleSubmit (allResolved\<lparr>docRes := Rejected None\<rparr>)
          (perform js0 (SetFormData (acme\<lparr>policyFile := Some ''p.pdf''\<rparr>))
            (mount js0 (freshBrowser grantedStore))))))"
proof -
  let ?s = "perform js0 (SetFormData (acme\<lparr>policyFile := Some ''p.pdf''\<rparr>))
      (mount js0 (freshBrowser grantedStore))"
  let ?r = "allResolved\<lparr>docRes := Rejected None\<rparr>"
  have connected: "googleConnected ?s"
    by (simp add: eval_defs grantedStore_def)
  have chosen: "policyFile (formData ?s) = Some ''p.pdf''"
    by (simp add: eval_defs grantedStore_def)
  have rejected: "docRes ?r = Rejected None"
    by simp
  have onscreen: "route ?s = ''/onboarding''"
    by (simp add: eval_defs grantedStore_def)
  from upload_failure_stops_workflow [of _ _ ?s "''p.pdf''" ?r None] connected chosen rejected
  have "route (handleSubmit ?r ?s) = route ?s"
    and "\<forall>c i. Request (Provision c i) \<notin> set (newEvents ?s (handleSubmit ?r ?s))"
    by blast+
  with connected rejected onscreen show ?thesis
    by simp
qed

text \<open>
  C7 as stated fails. Of three files, the upload of the second is rejected: the third is
  never uploaded and the wizard stays on the document step.
\<close>

theorem second_upload_rejected:
  "docFiles (acts (take 3 uploadRun) (initialWizard None)) = [''a.pdf'', ''b.pdf'', ''c.pdf'']
   \<and> wizardStep (acts (take 3 uploadRun) (initialWizard None)) = 2
   \<and> drop (length (log (acts (take 3 uploadRun) (initialWizard None))))
        (log (acts uploadRun (initialWizard None)))
       = [Sent (UploadDocPolicy ''C1'' ''a.pdf''), Sent (UploadDocPolicy ''C1'' ''b.pdf''),
          Failure ''Upload failed'']
   \<and> wizardStep (acts uploadRun (initialWizard None)) = 2"
  by (simp add: uploadRun_def flaky_def initialWizard_def handleRegisterCompany_def
      handleSaveTextPolicies_def handleUploadDocs_def tell_def Let_def or_else_def)

section \<open>Provisioning needs a database\<close>























end
